theory Spec2Isabelle
  imports Main "HOL-Library.Char_ord" "HOL-Library.List_Lexorder"
begin

section \<open>Data model of the B+ tree (src/bptree/bptree.ts)\<close>

text \<open>
  Keys, values and node identifiers are JavaScript strings; they are modelled as
  \<open>string\<close>, ordered lexicographically by character code (\<open><\<close> and \<open>\<le>\<close> on
  JavaScript strings), with the empty string the only falsy one.

  A node body is what \<open>JSON.parse\<close> returns: an untyped object whose properties
  \<open>keys\<close>, \<open>values\<close>, \<open>children\<close> and \<open>next\<close> may each be absent. The source
  tells leaves from internal nodes by the probe \<open>'values' in node\<close>, so the model keeps
  one record with four optional fields rather than a tagged union. \<open>vals\<close> stands for
  \<open>values\<close> and \<open>nxt\<close> for \<open>next\<close>.
\<close>

datatype error = TypeError | Unmodelled

record node =
  keys :: "string list option"
  vals :: "string list option"
  children :: "string list option"
  nxt :: "string option"

definition emptyObject :: node where
  "emptyObject = \<lparr>keys = None, vals = None, children = None, nxt = None\<rparr>"

text \<open>
  The backing store maps a key to a serialised record. A record is kept in parsed form:
  a node body or the metadata \<open>{rootId, height}\<close>. \<open>JSON.stringify\<close> followed by
  \<open>JSON.parse\<close> is the identity on these shapes as long as no array holds
  \<open>undefined\<close>; where the source would store \<open>undefined\<close> in an array (or leave a
  hole in it) the model stops with \<open>Unmodelled\<close>.
\<close>

datatype record_value = NodeJSON node | MetadataJSON string int

type_synonym okv = "string \<rightharpoonup> record_value"

definition LEAF_PREFIX :: string where "LEAF_PREFIX = ''00''"
definition INTERNAL_PREFIX :: string where "INTERNAL_PREFIX = ''01''"
definition METADATA_KEY :: string where "METADATA_KEY = ''__BPTREE_METADATA__''"

text \<open>
  \<open>stamp n\<close> is the value of
  \<open>Date.now() + Math.random().toString(36).substring(2, 10)\<close> at its \<open>n\<close>-th
  evaluation; the tree state counts the evaluations so far in \<open>drawn\<close>.
\<close>

record config =
  maxLeafSize :: nat
  maxInternalSize :: nat
  stamp :: "nat \<Rightarrow> string"

record tree =
  store :: okv
  rootId :: string
  height :: int
  drawn :: nat

type_synonym NodePath = "string option \<times> int"

text \<open>
  A mutating operation either returns the new tree or raises; the state at the moment of
  the raise is kept beside the error, since writes made before it stay in the store.
\<close>

type_synonym outcome = "(error \<times> tree) + tree"

section \<open>JavaScript array and store primitives\<close>

definition nth_opt :: "'a list \<Rightarrow> int \<Rightarrow> 'a option" where
  \<comment> \<open>\<open>xs[i]\<close>: \<open>undefined\<close> outside \<open>0 .. length - 1\<close>.\<close>
  "nth_opt xs i = (if 0 \<le> i \<and> i < int (length xs) then Some (xs ! nat i) else None)"

definition actual_start :: "'a list \<Rightarrow> int \<Rightarrow> nat" where
  \<comment> \<open>The start position of \<open>splice\<close>: a negative start counts from the end.\<close>
  "actual_start xs start =
     (if start < 0 then nat (max (int (length xs) + start) 0)
      else min (nat start) (length xs))"

definition splice_insert :: "'a list \<Rightarrow> int \<Rightarrow> 'a \<Rightarrow> 'a list" where
  \<comment> \<open>\<open>xs.splice(start, 0, item)\<close>\<close>
  "splice_insert xs start item =
     take (actual_start xs start) xs @ [item] @ drop (actual_start xs start) xs"

definition splice_delete :: "'a list \<Rightarrow> int \<Rightarrow> 'a list" where
  \<comment> \<open>\<open>xs.splice(start, 1)\<close>\<close>
  "splice_delete xs start =
     take (actual_start xs start) xs @ drop (Suc (actual_start xs start)) xs"

definition assign_at :: "'a list \<Rightarrow> int \<Rightarrow> 'a \<Rightarrow> 'a list option" where
  \<comment> \<open>\<open>xs[i] = v\<close>: a negative index sets a property that is no element and is not
      serialised; an index beyond the length would leave holes (\<open>None\<close>).\<close>
  "assign_at xs i v =
     (if i < 0 then Some xs
      else if i < int (length xs) then Some (xs[nat i := v])
      else if i = int (length xs) then Some (xs @ [v])
      else None)"

fun findIndex :: "('a \<Rightarrow> bool) \<Rightarrow> 'a list \<Rightarrow> int" where
  "findIndex p [] = - 1"
| "findIndex p (x # xs) =
     (if p x then 0 else (if findIndex p xs < 0 then - 1 else findIndex p xs + 1))"

definition indexOf :: "'a list \<Rightarrow> 'a \<Rightarrow> int" where
  "indexOf xs k = findIndex (\<lambda>x. x = k) xs"

definition truthy :: "string option \<Rightarrow> bool" where
  \<comment> \<open>A string or \<open>undefined\<close> in a condition: neither \<open>undefined\<close> nor \<open>""\<close>.\<close>
  "truthy s = (case s of None \<Rightarrow> False | Some a \<Rightarrow> a \<noteq> [])"

definition readNode :: "okv \<Rightarrow> string option \<Rightarrow> node" where
  \<comment> \<open>\<open>JSON.parse(this.store.get(id) || "{}")\<close>; the store holds no record under
      \<open>undefined\<close>, and a metadata record has none of a node's properties.\<close>
  "readNode s i =
     (case i of
        None \<Rightarrow> emptyObject
      | Some a \<Rightarrow> (case s a of Some (NodeJSON n) \<Rightarrow> n | _ \<Rightarrow> emptyObject))"

definition store_write :: "(string \<times> record_value) list \<Rightarrow> string list \<Rightarrow> okv \<Rightarrow> okv" where
  \<comment> \<open>\<open>store.write({set, delete})\<close>: the setters in order, then the deleters.\<close>
  "store_write sets dels s =
     fold (\<lambda>k m. m(k := None)) dels (fold (\<lambda>kv m. m(fst kv \<mapsto> snd kv)) sets s)"

definition half :: "nat \<Rightarrow> nat" where
  \<comment> \<open>\<open>Math.ceil(n / 2)\<close>\<close>
  "half n = (n + 1) div 2"

section \<open>Search primitives\<close>

function findChildIndex_loop :: "string list \<Rightarrow> string \<Rightarrow> nat \<Rightarrow> nat \<Rightarrow> nat" where
  "findChildIndex_loop ks key left right =
     (if left < right then
        (if (case nth_opt ks (int ((left + right) div 2)) of
               Some k \<Rightarrow> k \<le> key | None \<Rightarrow> False)
         then findChildIndex_loop ks key ((left + right) div 2 + 1) right
         else findChildIndex_loop ks key left ((left + right) div 2))
      else left)"
  by pat_completeness auto
termination
  by (relation "measure (\<lambda>(ks, key, left, right). right - left)") auto

declare findChildIndex_loop.simps [simp del]

definition findChildIndex :: "string list \<Rightarrow> string \<Rightarrow> nat" where
  "findChildIndex ks key = findChildIndex_loop ks key 0 (length ks)"

function findInsertIndex_loop :: "string list \<Rightarrow> string \<Rightarrow> nat \<Rightarrow> nat \<Rightarrow> nat" where
  "findInsertIndex_loop ks key left right =
     (if left < right then
        (case nth_opt ks (int ((left + right) div 2)) of
           None \<Rightarrow> findInsertIndex_loop ks key left ((left + right) div 2)
         | Some k \<Rightarrow>
             if k < key then findInsertIndex_loop ks key ((left + right) div 2 + 1) right
             else if k = key then (left + right) div 2
             else findInsertIndex_loop ks key left ((left + right) div 2))
      else left)"
  by pat_completeness auto
termination
  by (relation "measure (\<lambda>(ks, key, left, right). right - left)") auto

declare findInsertIndex_loop.simps [simp del]

definition findInsertIndex :: "string list \<Rightarrow> string \<Rightarrow> nat" where
  "findInsertIndex ks key = findInsertIndex_loop ks key 0 (length ks)"

definition childAt :: "string list \<Rightarrow> int \<Rightarrow> string option" where
  \<comment> \<open>\<open>node.children[index] || node.children[node.children.length - 1]\<close>\<close>
  "childAt cs i =
     (if truthy (nth_opt cs i) then nth_opt cs i else nth_opt cs (int (length cs) - 1))"

text \<open>
  The descent loop \<open>while (level < this.height)\<close> runs \<open>height\<close> times (not at all for
  a height below one); the counter is the number of levels still to go.
\<close>

fun findLeaf_loop :: "okv \<Rightarrow> string \<Rightarrow> nat \<Rightarrow> string option \<Rightarrow> error + string option" where
  "findLeaf_loop s key 0 current = Inr current"
| "findLeaf_loop s key (Suc n) current =
     (case keys (readNode s current) of
        None \<Rightarrow> Inl TypeError
      | Some ks \<Rightarrow>
          (case children (readNode s current) of
             None \<Rightarrow> Inl TypeError
           | Some cs \<Rightarrow> findLeaf_loop s key n (childAt cs (int (findChildIndex ks key)))))"

definition findLeaf :: "tree \<Rightarrow> string \<Rightarrow> error + string option" where
  "findLeaf t key = findLeaf_loop (store t) key (nat (height t)) (Some (rootId t))"

fun findNodePath_loop ::
  "okv \<Rightarrow> string \<Rightarrow> nat \<Rightarrow> string option \<Rightarrow> NodePath list \<Rightarrow> error + NodePath list" where
  "findNodePath_loop s key 0 current path = Inr (path @ [(current, - 1)])"
| "findNodePath_loop s key (Suc n) current path =
     (case keys (readNode s current) of
        None \<Rightarrow> Inl TypeError
      | Some ks \<Rightarrow>
          (case children (readNode s current) of
             None \<Rightarrow> Inl TypeError
           | Some cs \<Rightarrow>
               findNodePath_loop s key n (childAt cs (int (findChildIndex ks key)))
                 (path @ [(current, int (findChildIndex ks key))])))"

definition findNodePath :: "tree \<Rightarrow> string \<Rightarrow> error + NodePath list" where
  "findNodePath t key = findNodePath_loop (store t) key (nat (height t)) (Some (rootId t)) []"

section \<open>Initialisation and reads\<close>

definition init :: "okv \<Rightarrow> error + tree" where
  \<comment> \<open>The constructor; it leaves \<open>initialized\<close> set, so the guard
      \<open>if (!this.initialized) this.init()\<close> of the public operations never fires.\<close>
  "init s =
     (case s METADATA_KEY of
        Some (MetadataJSON r h) \<Rightarrow> Inr \<lparr>store = s, rootId = r, height = h, drawn = 0\<rparr>
      | Some (NodeJSON n) \<Rightarrow> Inl Unmodelled
      | None \<Rightarrow>
          Inr \<lparr>store =
                 store_write
                   [(LEAF_PREFIX @ ''root'',
                     NodeJSON \<lparr>keys = Some [], vals = Some [], children = None, nxt = None\<rparr>),
                    (METADATA_KEY, MetadataJSON (LEAF_PREFIX @ ''root'') 0)] [] s,
               rootId = LEAF_PREFIX @ ''root'', height = 0, drawn = 0\<rparr>)"

definition saveMetadata :: "tree \<Rightarrow> tree" where
  "saveMetadata t =
     t\<lparr>store := store_write [(METADATA_KEY, MetadataJSON (rootId t) (height t))] [] (store t)\<rparr>"

definition get :: "tree \<Rightarrow> string \<Rightarrow> error + string option" where
  "get t key =
     (case findLeaf t key of
        Inl e \<Rightarrow> Inl e
      | Inr leafNode \<Rightarrow>
          (case keys (readNode (store t) leafNode) of
             None \<Rightarrow> Inl TypeError
           | Some ks \<Rightarrow>
               if indexOf ks key \<noteq> - 1 then
                 (case vals (readNode (store t) leafNode) of
                    None \<Rightarrow> Inl TypeError
                  | Some vs \<Rightarrow> Inr (nth_opt vs (indexOf ks key)))
               else Inr None))"

section \<open>Range enumeration\<close>

text \<open>
  The options of \<open>list\<close>. An absent \<open>reverse\<close> and \<open>reverse: false\<close> are both
  falsy and are both \<open>False\<close> here. An emitted entry is \<open>{key, value}\<close>, either of
  which can be \<open>undefined\<close>.
\<close>

record ListArgs =
  gt :: "string option"
  gte :: "string option"
  lt :: "string option"
  lte :: "string option"
  limit :: "int option"
  offset :: "int option"
  reverse :: bool

type_synonym entry = "string option \<times> string option"

definition noArgs :: ListArgs where
  "noArgs = \<lparr>gt = None, gte = None, lt = None, lte = None, limit = None, offset = None,
             reverse = False\<rparr>"

definition startKey :: "ListArgs \<Rightarrow> string" where
  \<comment> \<open>\<open>args.gte || args.gt || ""\<close>\<close>
  "startKey args =
     (if truthy (gte args) then the (gte args)
      else if truthy (gt args) then the (gt args) else [])"

definition startIndex :: "ListArgs \<Rightarrow> string list \<Rightarrow> int" where
  \<comment> \<open>\<open>args.gt ? keys.findIndex(k => k > args.gt) :
       args.gte ? keys.findIndex(k => k >= args.gte) : 0\<close>\<close>
  "startIndex args ks =
     (if truthy (gt args) then findIndex (\<lambda>k. k > the (gt args)) ks
      else if truthy (gte args) then findIndex (\<lambda>k. k \<ge> the (gte args)) ks
      else 0)"

definition pastUpper :: "ListArgs \<Rightarrow> string option \<Rightarrow> bool" where
  \<comment> \<open>\<open>args.lt && key >= args.lt\<close> or \<open>args.lte && key > args.lte\<close>; a comparison
      with an \<open>undefined\<close> key is false.\<close>
  "pastUpper args key =
     (case key of
        None \<Rightarrow> False
      | Some k \<Rightarrow> (truthy (lt args) \<and> k \<ge> the (lt args))
                \<or> (truthy (lte args) \<and> k > the (lte args)))"

definition limitReached :: "ListArgs \<Rightarrow> entry list \<Rightarrow> bool" where
  \<comment> \<open>\<open>args.limit && results.length >= args.limit\<close>; the number zero is falsy.\<close>
  "limitReached args results =
     (case limit args of
        None \<Rightarrow> False
      | Some l \<Rightarrow> l \<noteq> 0 \<and> int (length results) \<ge> l)"

text \<open>
  The \<open>for\<close> loop over one leaf. The flag of the result tells whether the loop left
  through \<open>return results\<close> (\<open>True\<close>) or ran to the end of the leaf.
\<close>

function scanLeaf ::
  "ListArgs \<Rightarrow> string list \<Rightarrow> string list option \<Rightarrow> int \<Rightarrow> entry list
     \<Rightarrow> error + (bool \<times> entry list)" where
  "scanLeaf args ks vs i results =
     (if i < int (length ks) then
        (if pastUpper args (nth_opt ks i) then Inr (True, results)
         else
           (case vs of
              None \<Rightarrow> Inl TypeError
            | Some values \<Rightarrow>
                if limitReached args (results @ [(nth_opt ks i, nth_opt values i)])
                then Inr (True, results @ [(nth_opt ks i, nth_opt values i)])
                else scanLeaf args ks vs (i + 1)
                       (results @ [(nth_opt ks i, nth_opt values i)])))
      else Inr (False, results))"
  by pat_completeness auto
termination
  by (relation "measure (\<lambda>(args, ks, vs, i, results). nat (int (length ks) - i))") auto

declare scanLeaf.simps [simp del]

text \<open>
  The \<open>while\<close> loop over the sibling chain of \<open>bptree.ts\<close>. It follows \<open>next\<close>
  until that is falsy and does not return on a cyclic chain: \<open>None\<close> is "no result".
\<close>

partial_function (option) list_loop ::
  "okv \<Rightarrow> ListArgs \<Rightarrow> string option \<Rightarrow> entry list \<Rightarrow> (error + entry list) option" where
  "list_loop s args current results =
     (if truthy current then
        (case keys (readNode s current) of
           None \<Rightarrow> Some (Inl TypeError)
         | Some ks \<Rightarrow>
             (case scanLeaf args ks (vals (readNode s current)) (startIndex args ks) results of
                Inl e \<Rightarrow> Some (Inl e)
              | Inr r \<Rightarrow>
                  if fst r then Some (Inr (snd r))
                  else list_loop s args (nxt (readNode s current)) (snd r)))
      else Some (Inr results))"

declare list_loop.simps [code]

definition list_bptree :: "tree \<Rightarrow> ListArgs \<Rightarrow> (error + entry list) option" where
  \<comment> \<open>\<open>list\<close> of src/bptree/bptree.ts\<close>
  "list_bptree t args =
     (case findLeaf t (startKey args) of
        Inl e \<Rightarrow> Some (Inl e)
      | Inr current \<Rightarrow> list_loop (store t) args current [])"

text \<open>
  The second synchronous variant of the class (the documented one whose \<open>list\<close> takes
  \<open>ListArgs\<close>) differs in \<open>list\<close> only: a leaf with no key at or beyond the lower
  bound is skipped, and \<open>offset\<close> and \<open>reverse\<close> are applied when the \<open>while\<close>
  loop has run to its end.
\<close>

partial_function (option) list_loop2 ::
  "okv \<Rightarrow> ListArgs \<Rightarrow> string option \<Rightarrow> entry list
     \<Rightarrow> (error + (bool \<times> entry list)) option" where
  "list_loop2 s args current results =
     (if truthy current then
        (case keys (readNode s current) of
           None \<Rightarrow> Some (Inl TypeError)
         | Some ks \<Rightarrow>
             if startIndex args ks = - 1
             then list_loop2 s args (nxt (readNode s current)) results
             else
               (case scanLeaf args ks (vals (readNode s current)) (startIndex args ks)
                       results of
                  Inl e \<Rightarrow> Some (Inl e)
                | Inr r \<Rightarrow>
                    if fst r then Some (Inr (True, snd r))
                    else list_loop2 s args (nxt (readNode s current)) (snd r)))
      else Some (Inr (False, results)))"

declare list_loop2.simps [code]

definition applyOffset :: "ListArgs \<Rightarrow> entry list \<Rightarrow> entry list" where
  \<comment> \<open>\<open>if (args.offset && args.offset > 0) results.splice(0, args.offset)\<close>\<close>
  "applyOffset args results =
     (case offset args of
        None \<Rightarrow> results
      | Some n \<Rightarrow> if n \<noteq> 0 \<and> n > 0 then drop (nat n) results else results)"

definition applyReverse :: "ListArgs \<Rightarrow> entry list \<Rightarrow> entry list" where
  "applyReverse args results = (if reverse args then rev results else results)"

definition list_variant :: "tree \<Rightarrow> ListArgs \<Rightarrow> (error + entry list) option" where
  \<comment> \<open>\<open>list\<close> of the second variant\<close>
  "list_variant t args =
     (case findLeaf t (startKey args) of
        Inl e \<Rightarrow> Some (Inl e)
      | Inr current \<Rightarrow>
          (case list_loop2 (store t) args current [] of
             None \<Rightarrow> None
           | Some (Inl e) \<Rightarrow> Some (Inl e)
           | Some (Inr r) \<Rightarrow>
               if fst r then Some (Inr (snd r))
               else Some (Inr (applyReverse args (applyOffset args (snd r))))))"

section \<open>Mutation: insert and split\<close>

definition throw :: "error \<Rightarrow> tree \<Rightarrow> outcome" where
  "throw e t = Inl (e, t)"

definition writeStore :: "(string \<times> record_value) list \<Rightarrow> string list \<Rightarrow> tree \<Rightarrow> tree" where
  \<comment> \<open>\<open>this.store.write({set, delete})\<close>\<close>
  "writeStore sets dels t = t\<lparr>store := store_write sets dels (store t)\<rparr>"

definition parentIdOf :: "tree \<Rightarrow> NodePath list \<Rightarrow> string" where
  \<comment> \<open>\<open>parentPath[parentPath.length - 1]?.id || this.rootId\<close>\<close>
  "parentIdOf t parentPath =
     (if parentPath \<noteq> [] \<and> truthy (fst (last parentPath)) then the (fst (last parentPath))
      else rootId t)"

definition internalNode :: "string list \<Rightarrow> string list \<Rightarrow> node" where
  \<comment> \<open>the object literal \<open>{keys, children}\<close>\<close>
  "internalNode ks cs = \<lparr>keys = Some ks, vals = None, children = Some cs, nxt = None\<rparr>"

text \<open>
  \<open>splitInternalNode\<close>. A path that is not empty is shortened by its last entry, and
  \<open>childIndex\<close> is the index of that last entry. The separator \<open>node.keys[mid]\<close> is
  \<open>undefined\<close> only for a node without keys.
\<close>

function splitInternalNode ::
  "config \<Rightarrow> tree \<Rightarrow> string \<Rightarrow> node \<Rightarrow> NodePath list \<Rightarrow> outcome" where
  "splitInternalNode cfg t nodeId nd path =
     (case keys nd of
        None \<Rightarrow> throw TypeError t
      | Some ks \<Rightarrow>
          (case children nd of
             None \<Rightarrow> throw TypeError (t\<lparr>drawn := drawn t + 1\<rparr>)
           | Some cs \<Rightarrow>
               (let mid = length ks div 2;
                    splitKey = nth_opt ks (int mid);
                    newNodeId = INTERNAL_PREFIX @ stamp cfg (drawn t);
                    newNode = internalNode (drop (mid + 1) ks) (drop (mid + 1) cs);
                    nd' = nd\<lparr>keys := Some (take mid ks), children := Some (take (mid + 1) cs)\<rparr>;
                    t1 = writeStore [(nodeId, NodeJSON nd'), (newNodeId, NodeJSON newNode)] []
                           (t\<lparr>drawn := drawn t + 1\<rparr>)
                in
                  if path = [] then
                    (case splitKey of
                       None \<Rightarrow> throw Unmodelled t1
                     | Some sk \<Rightarrow>
                         (let newRootId = INTERNAL_PREFIX @ stamp cfg (drawn t1);
                              t2 = writeStore
                                     [(newRootId, NodeJSON (internalNode [sk] [nodeId, newNodeId]))]
                                     [] (t1\<lparr>drawn := drawn t1 + 1\<rparr>)
                          in Inr (saveMetadata (t2\<lparr>rootId := newRootId, height := height t2 + 1\<rparr>))))
                  else
                    (let parentPath = butlast path;
                         parentId = parentIdOf t1 parentPath;
                         parent = readNode (store t1) (Some parentId);
                         childIndex = snd (last path)
                     in
                       (case keys parent of
                          None \<Rightarrow> throw TypeError t1
                        | Some pks \<Rightarrow>
                            (case children parent of
                               None \<Rightarrow> throw TypeError t1
                             | Some pcs \<Rightarrow>
                                 (case splitKey of
                                    None \<Rightarrow> throw Unmodelled t1
                                  | Some sk \<Rightarrow>
                                      if length (splice_insert pks childIndex sk)
                                           > maxInternalSize cfg
                                      then splitInternalNode cfg t1 parentId
                                             (parent\<lparr>keys := Some (splice_insert pks childIndex sk),
                                                     children :=
                                                       Some (splice_insert pcs (childIndex + 1)
                                                               newNodeId)\<rparr>)
                                             parentPath
                                      else Inr (writeStore
                                                  [(parentId,
                                                    NodeJSON
                                                      (parent\<lparr>keys :=
                                                                Some (splice_insert pks childIndex sk),
                                                              children :=
                                                                Some (splice_insert pcs
                                                                        (childIndex + 1) newNodeId)\<rparr>))]
                                                  [] t1))))))))"
  by pat_completeness auto
termination
  by (relation "measure (\<lambda>(cfg, t, nodeId, nd, path). length path)") auto

declare splitInternalNode.simps [simp del]

definition updateParentAfterSplit ::
  "config \<Rightarrow> tree \<Rightarrow> string \<Rightarrow> string \<Rightarrow> string option \<Rightarrow> NodePath list \<Rightarrow> outcome" where
  \<comment> \<open>\<open>childIndex = path[path.length - 1].index\<close> raises on an empty path.\<close>
  "updateParentAfterSplit cfg t leftId rightId splitKey path =
     (let parentPath = butlast path;
          parentId = parentIdOf t parentPath;
          parent = readNode (store t) (Some parentId)
      in
        if path = [] then throw TypeError t
        else
          (let childIndex = snd (last path) in
             (case keys parent of
                None \<Rightarrow> throw TypeError t
              | Some pks \<Rightarrow>
                  (case children parent of
                     None \<Rightarrow> throw TypeError t
                   | Some pcs \<Rightarrow>
                       (case splitKey of
                          None \<Rightarrow> throw Unmodelled t
                        | Some sk \<Rightarrow>
                            (let parent' =
                                   parent\<lparr>keys := Some (splice_insert pks childIndex sk),
                                          children :=
                                            Some (splice_insert pcs (childIndex + 1) rightId)\<rparr>
                             in
                               if length (splice_insert pks childIndex sk) > maxInternalSize cfg
                               then splitInternalNode cfg t parentId parent' parentPath
                               else Inr (writeStore [(parentId, NodeJSON parent')] [] t)))))))"

definition splitLeafNode ::
  "config \<Rightarrow> tree \<Rightarrow> string \<Rightarrow> node \<Rightarrow> NodePath list \<Rightarrow> outcome" where
  "splitLeafNode cfg t nodeId nd path =
     (case keys nd of
        None \<Rightarrow> throw TypeError t
      | Some ks \<Rightarrow>
          (case vals nd of
             None \<Rightarrow> throw TypeError (t\<lparr>drawn := drawn t + 1\<rparr>)
           | Some vs \<Rightarrow>
               (let mid = length ks div 2;
                    newNodeId = LEAF_PREFIX @ stamp cfg (drawn t);
                    newNode = \<lparr>keys = Some (drop mid ks), vals = Some (drop mid vs),
                               children = None, nxt = nxt nd\<rparr>;
                    nd' = nd\<lparr>keys := Some (take mid ks), vals := Some (take mid vs),
                             nxt := Some newNodeId\<rparr>;
                    t1 = writeStore [(nodeId, NodeJSON nd'), (newNodeId, NodeJSON newNode)] []
                           (t\<lparr>drawn := drawn t + 1\<rparr>);
                    splitKey = nth_opt (drop mid ks) 0
                in
                  if path = [] then
                    (case splitKey of
                       None \<Rightarrow> throw Unmodelled t1
                     | Some sk \<Rightarrow>
                         (let newRootId = INTERNAL_PREFIX @ stamp cfg (drawn t1);
                              t2 = writeStore
                                     [(newRootId, NodeJSON (internalNode [sk] [nodeId, newNodeId]))]
                                     [] (t1\<lparr>drawn := drawn t1 + 1\<rparr>)
                          in Inr (saveMetadata (t2\<lparr>rootId := newRootId, height := 1\<rparr>))))
                  else updateParentAfterSplit cfg t1 nodeId newNodeId splitKey path)))"

text \<open>
  The source writes the leaf edit of \<open>insert\<close> twice, once for a root leaf
  (\<open>height === 0\<close>, leaf \<open>this.rootId\<close>, split without a path) and once below a path
  (leaf \<open>path[path.length - 1].id\<close>, split with the whole path); the two copies differ in
  nothing else and share \<open>insertIntoLeaf\<close> here. An \<open>undefined\<close> leaf identifier
  parses to \<open>{}\<close>, on which \<open>findInsertIndex\<close> raises.
\<close>

definition insertIntoLeaf ::
  "config \<Rightarrow> tree \<Rightarrow> string option \<Rightarrow> NodePath list \<Rightarrow> string \<Rightarrow> string \<Rightarrow> outcome" where
  "insertIntoLeaf cfg t leaf path key val =
     (case leaf of
        None \<Rightarrow> throw TypeError t
      | Some leafId \<Rightarrow>
          (let leafNode = readNode (store t) (Some leafId) in
             (case keys leafNode of
                None \<Rightarrow> throw TypeError t
              | Some ks \<Rightarrow>
                  (let index = findInsertIndex ks key in
                     (case vals leafNode of
                        None \<Rightarrow> throw TypeError t
                      | Some vs \<Rightarrow>
                          if index < length ks \<and> ks ! index = key then
                            (case assign_at vs (int index) val of
                               None \<Rightarrow> throw Unmodelled t
                             | Some vs' \<Rightarrow>
                                 Inr (writeStore
                                        [(leafId, NodeJSON (leafNode\<lparr>vals := Some vs'\<rparr>))] [] t))
                          else
                            (let leafNode' =
                                   leafNode\<lparr>keys := Some (splice_insert ks (int index) key),
                                            vals := Some (splice_insert vs (int index) val)\<rparr>
                             in
                               if length (splice_insert ks (int index) key) > maxLeafSize cfg
                               then splitLeafNode cfg t leafId leafNode' path
                               else Inr (writeStore [(leafId, NodeJSON leafNode')] [] t)))))))"

definition insert_kv :: "config \<Rightarrow> tree \<Rightarrow> string \<Rightarrow> string \<Rightarrow> outcome" where
  \<comment> \<open>\<open>insert\<close>\<close>
  "insert_kv cfg t key val =
     (if height t = 0 then insertIntoLeaf cfg t (Some (rootId t)) [] key val
      else
        (case findNodePath t key of
           Inl e \<Rightarrow> throw e t
         | Inr path \<Rightarrow> insertIntoLeaf cfg t (fst (last path)) path key val))"

section \<open>Mutation: remove and repair\<close>

text \<open>
  The three objects handed to a borrow or a merge (\<open>node\<close>, the sibling, \<open>parent\<close>)
  are separate results of \<open>JSON.parse\<close>, also when two of their identifiers are equal;
  the batch written at the end applies its setters in order. Every statement that can
  raise comes before that write, so the order among the raises does not show. A sibling
  identifier that is \<open>undefined\<close> belongs to a sibling parsed from \<open>{}\<close>, on which
  each of the four routines raises before it writes.
\<close>

definition isLeafPair :: "node \<Rightarrow> node \<Rightarrow> bool" where
  \<comment> \<open>\<open>'values' in node && 'values' in sibling\<close>\<close>
  "isLeafPair a b = (vals a \<noteq> None \<and> vals b \<noteq> None)"

definition pop_opt :: "'a list \<Rightarrow> 'a option" where
  \<comment> \<open>the result of \<open>xs.pop()\<close>\<close>
  "pop_opt xs = (if xs = [] then None else Some (last xs))"

definition shift_opt :: "'a list \<Rightarrow> 'a option" where
  \<comment> \<open>the result of \<open>xs.shift()\<close>\<close>
  "shift_opt xs = (case xs of [] \<Rightarrow> None | x # _ \<Rightarrow> Some x)"

definition borrowFromLeftSibling ::
  "tree \<Rightarrow> string \<Rightarrow> node \<Rightarrow> string option \<Rightarrow> node \<Rightarrow> string \<Rightarrow> node \<Rightarrow> int \<Rightarrow> outcome" where
  "borrowFromLeftSibling t nodeId nd leftSiblingId leftSibling parentId parent childIndex =
     (case (leftSiblingId, keys nd, keys leftSibling, keys parent) of
        (Some lid, Some nks, Some lks, Some pks) \<Rightarrow>
          if isLeafPair nd leftSibling then
            (case (pop_opt lks, pop_opt (the (vals leftSibling))) of
               (Some key, Some val) \<Rightarrow>
                 (case assign_at pks (childIndex - 1) key of
                    None \<Rightarrow> throw Unmodelled t
                  | Some pks' \<Rightarrow>
                      Inr (writeStore
                             [(nodeId, NodeJSON (nd\<lparr>keys := Some (key # nks),
                                                     vals := Some (val # the (vals nd))\<rparr>)),
                              (lid, NodeJSON (leftSibling\<lparr>keys := Some (butlast lks),
                                                          vals := Some (butlast (the (vals leftSibling)))\<rparr>)),
                              (parentId, NodeJSON (parent\<lparr>keys := Some pks'\<rparr>))] [] t))
             | _ \<Rightarrow> throw Unmodelled t)
          else
            (case (children nd, children leftSibling) of
               (Some ncs, Some lcs) \<Rightarrow>
                 (case (nth_opt pks (childIndex - 1), pop_opt lcs, pop_opt lks) of
                    (Some parentKey, Some childId, Some key) \<Rightarrow>
                      (case assign_at pks (childIndex - 1) key of
                         None \<Rightarrow> throw Unmodelled t
                       | Some pks' \<Rightarrow>
                           Inr (writeStore
                                  [(nodeId, NodeJSON (nd\<lparr>keys := Some (parentKey # nks),
                                                          children := Some (childId # ncs)\<rparr>)),
                                   (lid, NodeJSON (leftSibling\<lparr>keys := Some (butlast lks),
                                                               children := Some (butlast lcs)\<rparr>)),
                                   (parentId, NodeJSON (parent\<lparr>keys := Some pks'\<rparr>))] [] t))
                  | _ \<Rightarrow> throw Unmodelled t)
             | _ \<Rightarrow> throw TypeError t)
      | _ \<Rightarrow> throw TypeError t)"

definition borrowFromRightSibling ::
  "tree \<Rightarrow> string \<Rightarrow> node \<Rightarrow> string option \<Rightarrow> node \<Rightarrow> string \<Rightarrow> node \<Rightarrow> int \<Rightarrow> outcome" where
  \<comment> \<open>In the leaf case the parent separator becomes \<open>rightSibling.keys[0]\<close> after the
      shift; storing an \<open>undefined\<close> one at a negative index leaves the array as it is.\<close>
  "borrowFromRightSibling t nodeId nd rightSiblingId rightSibling parentId parent childIndex =
     (case (rightSiblingId, keys nd, keys rightSibling, keys parent) of
        (Some rid, Some nks, Some rks, Some pks) \<Rightarrow>
          if isLeafPair nd rightSibling then
            (case (shift_opt rks, shift_opt (the (vals rightSibling))) of
               (Some key, Some val) \<Rightarrow>
                 (case (if childIndex < 0 then Some pks
                        else (case shift_opt (tl rks) of
                                None \<Rightarrow> None
                              | Some k \<Rightarrow> assign_at pks childIndex k)) of
                    None \<Rightarrow> throw Unmodelled t
                  | Some pks' \<Rightarrow>
                      Inr (writeStore
                             [(nodeId, NodeJSON (nd\<lparr>keys := Some (nks @ [key]),
                                                     vals := Some (the (vals nd) @ [val])\<rparr>)),
                              (rid, NodeJSON (rightSibling\<lparr>keys := Some (tl rks),
                                                           vals := Some (tl (the (vals rightSibling)))\<rparr>)),
                              (parentId, NodeJSON (parent\<lparr>keys := Some pks'\<rparr>))] [] t))
             | _ \<Rightarrow> throw Unmodelled t)
          else
            (case (children nd, children rightSibling) of
               (Some ncs, Some rcs) \<Rightarrow>
                 (case (nth_opt pks childIndex, shift_opt rcs, shift_opt rks) of
                    (Some parentKey, Some childId, Some key) \<Rightarrow>
                      (case assign_at pks childIndex key of
                         None \<Rightarrow> throw Unmodelled t
                       | Some pks' \<Rightarrow>
                           Inr (writeStore
                                  [(nodeId, NodeJSON (nd\<lparr>keys := Some (nks @ [parentKey]),
                                                          children := Some (ncs @ [childId])\<rparr>)),
                                   (rid, NodeJSON (rightSibling\<lparr>keys := Some (tl rks),
                                                                children := Some (tl rcs)\<rparr>)),
                                   (parentId, NodeJSON (parent\<lparr>keys := Some pks'\<rparr>))] [] t))
                  | _ \<Rightarrow> throw Unmodelled t)
             | _ \<Rightarrow> throw TypeError t)
      | _ \<Rightarrow> throw TypeError t)"

text \<open>
  Both merges build the surviving node the same way: the receiver takes the other node's
  entries after its own, with the parent separator between the keys of two internal
  nodes, and a leaf receiver takes the other leaf's \<open>next\<close>.
\<close>

definition absorb :: "node \<Rightarrow> node \<Rightarrow> string list \<Rightarrow> int \<Rightarrow> error + node" where
  "absorb receiver other pks i =
     (case (keys receiver, keys other) of
        (Some rks, Some oks) \<Rightarrow>
          if isLeafPair receiver other then
            Inr (receiver\<lparr>keys := Some (rks @ oks),
                          vals := Some (the (vals receiver) @ the (vals other)),
                          nxt := nxt other\<rparr>)
          else
            (case (children receiver, children other) of
               (Some rcs, Some ocs) \<Rightarrow>
                 (case nth_opt pks i of
                    None \<Rightarrow> Inl Unmodelled
                  | Some parentKey \<Rightarrow>
                      Inr (receiver\<lparr>keys := Some (rks @ [parentKey] @ oks),
                                    children := Some (rcs @ ocs)\<rparr>))
             | _ \<Rightarrow> Inl TypeError)
      | _ \<Rightarrow> Inl TypeError)"

definition canBorrow :: "config \<Rightarrow> okv \<Rightarrow> string option \<Rightarrow> error + bool" where
  \<comment> \<open>\<open>sibling.keys.length > Math.ceil(this.maxLeafSize / 2)\<close> on the sibling read
      from the store\<close>
  "canBorrow cfg s sibling =
     (case keys (readNode s sibling) of
        None \<Rightarrow> Inl TypeError
      | Some ks \<Rightarrow> Inr (length ks > half (maxLeafSize cfg)))"

function rebalanceAfterDelete ::
    "config \<Rightarrow> tree \<Rightarrow> string \<Rightarrow> node \<Rightarrow> NodePath list \<Rightarrow> outcome"
  and mergeWithLeftSibling ::
    "config \<Rightarrow> tree \<Rightarrow> string \<Rightarrow> node \<Rightarrow> string option \<Rightarrow> node \<Rightarrow> string \<Rightarrow> node \<Rightarrow> int
       \<Rightarrow> NodePath list \<Rightarrow> outcome"
  and mergeWithRightSibling ::
    "config \<Rightarrow> tree \<Rightarrow> string \<Rightarrow> node \<Rightarrow> string option \<Rightarrow> node \<Rightarrow> string \<Rightarrow> node \<Rightarrow> int
       \<Rightarrow> NodePath list \<Rightarrow> outcome"
where
  "rebalanceAfterDelete cfg t nodeId nd path =
     (if path = [] then throw TypeError t
      else
        (case children (readNode (store t) (Some (parentIdOf t (butlast path)))) of
           None \<Rightarrow> throw TypeError t
         | Some pcs \<Rightarrow>
             (case (if snd (last path) > 0
                    then canBorrow cfg (store t) (nth_opt pcs (snd (last path) - 1))
                    else Inr False) of
                Inl e \<Rightarrow> throw e t
              | Inr borrowLeft \<Rightarrow>
                  if borrowLeft then
                    borrowFromLeftSibling t nodeId nd
                      (nth_opt pcs (snd (last path) - 1))
                      (readNode (store t) (nth_opt pcs (snd (last path) - 1)))
                      (parentIdOf t (butlast path))
                      (readNode (store t) (Some (parentIdOf t (butlast path))))
                      (snd (last path))
                  else
                    (case (if snd (last path) < int (length pcs) - 1
                           then canBorrow cfg (store t) (nth_opt pcs (snd (last path) + 1))
                           else Inr False) of
                       Inl e \<Rightarrow> throw e t
                     | Inr borrowRight \<Rightarrow>
                         if borrowRight then
                           borrowFromRightSibling t nodeId nd
                             (nth_opt pcs (snd (last path) + 1))
                             (readNode (store t) (nth_opt pcs (snd (last path) + 1)))
                             (parentIdOf t (butlast path))
                             (readNode (store t) (Some (parentIdOf t (butlast path))))
                             (snd (last path))
                         else if snd (last path) > 0 then
                           mergeWithLeftSibling cfg t nodeId nd
                             (nth_opt pcs (snd (last path) - 1))
                             (readNode (store t) (nth_opt pcs (snd (last path) - 1)))
                             (parentIdOf t (butlast path))
                             (readNode (store t) (Some (parentIdOf t (butlast path))))
                             (snd (last path)) (butlast path)
                         else
                           mergeWithRightSibling cfg t nodeId nd
                             (nth_opt pcs (snd (last path) + 1))
                             (readNode (store t) (nth_opt pcs (snd (last path) + 1)))
                             (parentIdOf t (butlast path))
                             (readNode (store t) (Some (parentIdOf t (butlast path))))
                             (snd (last path)) (butlast path)))))"
| "mergeWithLeftSibling cfg t nodeId nd leftSiblingId leftSibling parentId parent childIndex
       parentPath =
     (case (leftSiblingId, keys parent, children parent) of
        (Some lid, Some pks, Some pcs) \<Rightarrow>
          (case absorb leftSibling nd pks (childIndex - 1) of
             Inl e \<Rightarrow> throw e t
           | Inr leftSibling' \<Rightarrow>
               if length (splice_delete pks (childIndex - 1)) < half (maxInternalSize cfg)
                  \<and> parentPath \<noteq> []
               then
                 rebalanceAfterDelete cfg
                   (writeStore
                      [(lid, NodeJSON leftSibling'),
                       (parentId,
                        NodeJSON (parent\<lparr>keys := Some (splice_delete pks (childIndex - 1)),
                                         children := Some (splice_delete pcs childIndex)\<rparr>))]
                      [nodeId] t)
                   parentId
                   (parent\<lparr>keys := Some (splice_delete pks (childIndex - 1)),
                           children := Some (splice_delete pcs childIndex)\<rparr>)
                   parentPath
               else if length (splice_delete pks (childIndex - 1)) = 0 \<and> parentId = rootId t
               then
                 Inr (saveMetadata
                        (writeStore [] [parentId]
                           ((writeStore
                               [(lid, NodeJSON leftSibling'),
                                (parentId,
                                 NodeJSON (parent\<lparr>keys := Some (splice_delete pks (childIndex - 1)),
                                                  children := Some (splice_delete pcs childIndex)\<rparr>))]
                               [nodeId] t)
                            \<lparr>rootId := lid, height := height t - 1\<rparr>)))
               else
                 Inr (writeStore
                        [(lid, NodeJSON leftSibling'),
                         (parentId,
                          NodeJSON (parent\<lparr>keys := Some (splice_delete pks (childIndex - 1)),
                                           children := Some (splice_delete pcs childIndex)\<rparr>))]
                        [nodeId] t))
      | _ \<Rightarrow> throw TypeError t)"
| "mergeWithRightSibling cfg t nodeId nd rightSiblingId rightSibling parentId parent childIndex
       parentPath =
     (case (rightSiblingId, keys parent, children parent) of
        (Some rid, Some pks, Some pcs) \<Rightarrow>
          (case absorb nd rightSibling pks childIndex of
             Inl e \<Rightarrow> throw e t
           | Inr nd' \<Rightarrow>
               if length (splice_delete pks childIndex) < half (maxInternalSize cfg)
                  \<and> parentPath \<noteq> []
               then
                 rebalanceAfterDelete cfg
                   (writeStore
                      [(nodeId, NodeJSON nd'),
                       (parentId,
                        NodeJSON (parent\<lparr>keys := Some (splice_delete pks childIndex),
                                         children := Some (splice_delete pcs (childIndex + 1))\<rparr>))]
                      [rid] t)
                   parentId
                   (parent\<lparr>keys := Some (splice_delete pks childIndex),
                           children := Some (splice_delete pcs (childIndex + 1))\<rparr>)
                   parentPath
               else if length (splice_delete pks childIndex) = 0 \<and> parentId = rootId t
               then
                 Inr (saveMetadata
                        (writeStore [] [parentId]
                           ((writeStore
                               [(nodeId, NodeJSON nd'),
                                (parentId,
                                 NodeJSON (parent\<lparr>keys := Some (splice_delete pks childIndex),
                                                  children := Some (splice_delete pcs (childIndex + 1))\<rparr>))]
                               [rid] t)
                            \<lparr>rootId := nodeId, height := height t - 1\<rparr>)))
               else
                 Inr (writeStore
                        [(nodeId, NodeJSON nd'),
                         (parentId,
                          NodeJSON (parent\<lparr>keys := Some (splice_delete pks childIndex),
                                           children := Some (splice_delete pcs (childIndex + 1))\<rparr>))]
                        [rid] t))
      | _ \<Rightarrow> throw TypeError t)"
  by pat_completeness auto
termination
  by (relation "measure (\<lambda>x. case x of
          Inl (cfg, t, nodeId, nd, path) \<Rightarrow> 2 * length path + 1
        | Inr (Inl (cfg, t, nodeId, nd, sid, sib, parentId, parent, childIndex, parentPath)) \<Rightarrow>
            2 * length parentPath + 2
        | Inr (Inr (cfg, t, nodeId, nd, sid, sib, parentId, parent, childIndex, parentPath)) \<Rightarrow>
            2 * length parentPath + 2)")
     (auto simp: neq_Nil_conv)

declare rebalanceAfterDelete.simps [simp del]
declare mergeWithLeftSibling.simps [simp del]
declare mergeWithRightSibling.simps [simp del]

definition remove :: "config \<Rightarrow> tree \<Rightarrow> string \<Rightarrow> outcome" where
  "remove cfg t key =
     (if height t = 0 then
        (let rootNode = readNode (store t) (Some (rootId t)) in
           (case keys rootNode of
              None \<Rightarrow> throw TypeError t
            | Some ks \<Rightarrow>
                if indexOf ks key = - 1 then Inr t
                else
                  (case vals rootNode of
                     None \<Rightarrow> throw TypeError t
                   | Some vs \<Rightarrow>
                       Inr (writeStore
                              [(rootId t,
                                NodeJSON (rootNode\<lparr>keys := Some (splice_delete ks (indexOf ks key)),
                                                   vals := Some (splice_delete vs (indexOf ks key))\<rparr>))]
                              [] t))))
      else
        (case findNodePath t key of
           Inl e \<Rightarrow> throw e t
         | Inr path \<Rightarrow>
             (case fst (last path) of
                None \<Rightarrow> throw TypeError t
              | Some leafId \<Rightarrow>
                  (let leafNode = readNode (store t) (Some leafId) in
                     (case keys leafNode of
                        None \<Rightarrow> throw TypeError t
                      | Some ks \<Rightarrow>
                          if indexOf ks key = - 1 then Inr t
                          else
                            (case vals leafNode of
                               None \<Rightarrow> throw TypeError t
                             | Some vs \<Rightarrow>
                                 (let leafNode' =
                                        leafNode\<lparr>keys := Some (splice_delete ks (indexOf ks key)),
                                                 vals := Some (splice_delete vs (indexOf ks key))\<rparr>
                                  in
                                    if length (splice_delete ks (indexOf ks key))
                                         < half (maxLeafSize cfg)
                                       \<and> length path > 1
                                    then rebalanceAfterDelete cfg t leafId leafNode' path
                                    else Inr (writeStore [(leafId, NodeJSON leafNode')] [] t))))))))"

section \<open>The public operations\<close>

fun insertAll :: "config \<Rightarrow> tree \<Rightarrow> (string \<times> string) list \<Rightarrow> outcome" where
  "insertAll cfg t [] = Inr t"
| "insertAll cfg t (kv # rest) =
     (case insert_kv cfg t (fst kv) (snd kv) of
        Inl e \<Rightarrow> Inl e
      | Inr t' \<Rightarrow> insertAll cfg t' rest)"

fun removeAll_keys :: "config \<Rightarrow> tree \<Rightarrow> string list \<Rightarrow> outcome" where
  "removeAll_keys cfg t [] = Inr t"
| "removeAll_keys cfg t (k # rest) =
     (case remove cfg t k of
        Inl e \<Rightarrow> Inl e
      | Inr t' \<Rightarrow> removeAll_keys cfg t' rest)"

definition write_tx :: "config \<Rightarrow> tree \<Rightarrow> (string \<times> string) list \<Rightarrow> string list \<Rightarrow> outcome" where
  \<comment> \<open>\<open>write({set, delete})\<close>; an absent list is the empty one.\<close>
  "write_tx cfg t sets dels =
     (case insertAll cfg t sets of
        Inl e \<Rightarrow> Inl e
      | Inr t' \<Rightarrow> removeAll_keys cfg t' dels)"

definition set_kv :: "config \<Rightarrow> tree \<Rightarrow> string \<Rightarrow> string \<Rightarrow> outcome" where
  \<comment> \<open>\<open>set\<close>\<close>
  "set_kv cfg t key val = write_tx cfg t [(key, val)] []"

definition delete :: "config \<Rightarrow> tree \<Rightarrow> string \<Rightarrow> outcome" where
  "delete cfg t key = write_tx cfg t [] [key]"

section \<open>Operation sequences and the reference oracle\<close>

datatype operation = SetOp string string | DeleteOp string

fun run :: "config \<Rightarrow> tree \<Rightarrow> operation list \<Rightarrow> outcome" where
  "run cfg t [] = Inr t"
| "run cfg t (SetOp k v # ops) =
     (case set_kv cfg t k v of Inl e \<Rightarrow> Inl e | Inr t' \<Rightarrow> run cfg t' ops)"
| "run cfg t (DeleteOp k # ops) =
     (case delete cfg t k of Inl e \<Rightarrow> Inl e | Inr t' \<Rightarrow> run cfg t' ops)"

text \<open>
  Modelled from the spec: the reference oracle of the randomized scenario is a simple
  sorted map. \<open>InMemoryDatabase.write\<close> hands each pair to \<open>insert\<close> and each key to
  \<open>remove\<close> of the package \<open>@ccorcos/ordered-array\<close>, which is no source of this
  repository; the two follow their contract on an array sorted by key: \<open>insert\<close>
  replaces the entry of an equal key or places the new entry in order, \<open>remove\<close> drops
  the entry of an equal key. \<open>list()\<close> without arguments returns the whole array.
\<close>

fun oracle_insert :: "string \<Rightarrow> string \<Rightarrow> (string \<times> string) list \<Rightarrow> (string \<times> string) list" where
  "oracle_insert k v [] = [(k, v)]"
| "oracle_insert k v (e # es) =
     (if k < fst e then (k, v) # e # es
      else if k = fst e then (k, v) # es
      else e # oracle_insert k v es)"

fun oracle_remove :: "string \<Rightarrow> (string \<times> string) list \<Rightarrow> (string \<times> string) list" where
  "oracle_remove k [] = []"
| "oracle_remove k (e # es) = (if k = fst e then es else e # oracle_remove k es)"

fun oracle_run :: "(string \<times> string) list \<Rightarrow> operation list \<Rightarrow> (string \<times> string) list" where
  "oracle_run d [] = d"
| "oracle_run d (SetOp k v # ops) = oracle_run (oracle_insert k v d) ops"
| "oracle_run d (DeleteOp k # ops) = oracle_run (oracle_remove k d) ops"

definition oracle_list :: "(string \<times> string) list \<Rightarrow> entry list" where
  "oracle_list d = map (\<lambda>e. (Some (fst e), Some (snd e))) d"

section \<open>Scenario data\<close>

text \<open>
  One run of the clock and the random source: the \<open>n\<close>-th identifier suffix is a
  millisecond time stamp followed by the decimal digits of \<open>n\<close>.
\<close>

fun decimal :: "nat \<Rightarrow> string" where
  "decimal n =
     (if n < 10 then [''0123456789'' ! n]
      else decimal (n div 10) @ [''0123456789'' ! (n mod 10)])"

declare decimal.simps [simp del]

definition clockStamp :: "nat \<Rightarrow> string" where
  "clockStamp n = ''1762041600000'' @ decimal n"

definition defaults :: config where
  \<comment> \<open>\<open>MAX_LEAF_SIZE\<close> and \<open>MAX_INTERNAL_SIZE\<close>\<close>
  "defaults = \<lparr>maxLeafSize = 32, maxInternalSize = 32, stamp = clockStamp\<rparr>"

definition smallFanout :: config where
  "smallFanout = \<lparr>maxLeafSize = 4, maxInternalSize = 32, stamp = clockStamp\<rparr>"

definition leafNode :: "string list \<Rightarrow> string list \<Rightarrow> string option \<Rightarrow> node" where
  \<comment> \<open>the object \<open>{keys, values, next}\<close>\<close>
  "leafNode ks vs n = \<lparr>keys = Some ks, vals = Some vs, children = None, nxt = n\<rparr>"

definition rootLeaf :: "string list \<Rightarrow> string list \<Rightarrow> tree" where
  \<comment> \<open>a tree of height 0 whose root leaf \<open>00root\<close> holds the given entries\<close>
  "rootLeaf ks vs =
     \<lparr>store = [''00root'' \<mapsto> NodeJSON (leafNode ks vs None),
               METADATA_KEY \<mapsto> MetadataJSON ''00root'' 0],
      rootId = ''00root'', height = 0, drawn = 0\<rparr>"

definition tree_a_to_f :: tree where
  \<comment> \<open>the state after \<open>set\<close> of \<open>a\<close> .. \<open>f\<close> with \<open>maxLeafSize = 4\<close>\<close>
  "tree_a_to_f =
     \<lparr>store =
        [''00root'' \<mapsto>
           NodeJSON (leafNode [''a'', ''b''] [''a'', ''b''] (Some ''0017620416000000'')),
         ''0017620416000000'' \<mapsto>
           NodeJSON (leafNode [''c'', ''d'', ''e'', ''f''] [''c'', ''d'', ''e'', ''f''] None),
         ''0117620416000001'' \<mapsto>
           NodeJSON (internalNode [''c''] [''00root'', ''0017620416000000'']),
         METADATA_KEY \<mapsto> MetadataJSON ''0117620416000001'' 1],
      rootId = ''0117620416000001'', height = 1, drawn = 2\<rparr>"

definition tree_a_to_g :: tree where
  \<comment> \<open>the state after the further \<open>set\<close> of \<open>g\<close>\<close>
  "tree_a_to_g =
     \<lparr>store =
        [''00root'' \<mapsto>
           NodeJSON (leafNode [''a'', ''b''] [''a'', ''b''] (Some ''0017620416000000'')),
         ''0017620416000000'' \<mapsto>
           NodeJSON (leafNode [''c'', ''d''] [''c'', ''d''] (Some ''0017620416000002'')),
         ''0017620416000002'' \<mapsto>
           NodeJSON (leafNode [''e'', ''f'', ''g''] [''e'', ''f'', ''g''] None),
         ''0117620416000001'' \<mapsto>
           NodeJSON (internalNode [''e'', ''c'']
                       [''0017620416000002'', ''00root'', ''0017620416000000'']),
         METADATA_KEY \<mapsto> MetadataJSON ''0117620416000001'' 1],
      rootId = ''0117620416000001'', height = 1, drawn = 3\<rparr>"

definition tree_after_borrow :: tree where
  \<comment> \<open>the state after \<open>set\<close> of \<open>b, c, d, e, f, a\<close> and \<open>delete\<close> of \<open>f, e\<close> with
      \<open>maxLeafSize = 4\<close>\<close>
  "tree_after_borrow =
     \<lparr>store =
        [''00root'' \<mapsto>
           NodeJSON (leafNode [''b'', ''c''] [''b'', ''c''] (Some ''0017620416000000'')),
         ''0017620416000000'' \<mapsto>
           NodeJSON (leafNode [''d'', ''a''] [''d'', ''a''] None),
         ''0117620416000001'' \<mapsto>
           NodeJSON (internalNode [''d''] [''00root'', ''0017620416000000'']),
         METADATA_KEY \<mapsto> MetadataJSON ''0117620416000001'' 1],
      rootId = ''0117620416000001'', height = 1, drawn = 2\<rparr>"

definition metadataOnly :: okv where
  \<comment> \<open>a backing store that kept the metadata record and lost the root's record\<close>
  "metadataOnly = [METADATA_KEY \<mapsto> MetadataJSON ''00root'' 0]"

section \<open>Properties named by the specification\<close>

text \<open>
  Invariant I1 in the specification's words: following \<open>next\<close> from the leftmost leaf
  (the leaf the descent for the empty key reaches) visits all leaves (the leaves under
  the root, left to right), their keys in that order are strictly ascending, and they
  are what \<open>list({})\<close> returns.
\<close>

fun leavesUnder :: "okv \<Rightarrow> nat \<Rightarrow> string \<Rightarrow> string list" where
  "leavesUnder s 0 i = [i]"
| "leavesUnder s (Suc n) i =
     (case children (readNode s (Some i)) of
        None \<Rightarrow> []
      | Some cs \<Rightarrow> concat (map (leavesUnder s n) cs))"

fun chainFrom :: "okv \<Rightarrow> nat \<Rightarrow> string option \<Rightarrow> string list" where
  "chainFrom s 0 current = []"
| "chainFrom s (Suc n) current =
     (if truthy current then the current # chainFrom s n (nxt (readNode s current)) else [])"

definition leafKeys :: "okv \<Rightarrow> string \<Rightarrow> string list" where
  "leafKeys s i = (case keys (readNode s (Some i)) of None \<Rightarrow> [] | Some ks \<Rightarrow> ks)"

definition leafEntries :: "okv \<Rightarrow> string \<Rightarrow> entry list" where
  "leafEntries s i =
     (case vals (readNode s (Some i)) of
        None \<Rightarrow> []
      | Some vs \<Rightarrow> zip (map Some (leafKeys s i)) (map Some vs))"

definition treeLeaves :: "tree \<Rightarrow> string list" where
  "treeLeaves t = leavesUnder (store t) (nat (height t)) (rootId t)"

definition sortedLeafChain :: "tree \<Rightarrow> bool" where
  "sortedLeafChain t =
     (case findLeaf t [] of
        Inl e \<Rightarrow> False
      | Inr leftmost \<Rightarrow>
          chainFrom (store t) (Suc (length (treeLeaves t))) leftmost = treeLeaves t
          \<and> sorted_wrt (<) (concat (map (leafKeys (store t)) (treeLeaves t)))
          \<and> list_bptree t noArgs
              = Some (Inr (concat (map (leafEntries (store t)) (treeLeaves t)))))"

text \<open>
  Inverted bounds in the specification's words: the lower bound lies above an upper
  bound, or equals it with one side open. The lower bound is the one \<open>list\<close> uses for
  its start index (\<open>gt\<close> when that is truthy, else \<open>gte\<close>).
\<close>

definition invertedBounds :: "ListArgs \<Rightarrow> bool" where
  "invertedBounds args =
     (if truthy (gt args) then
        (truthy (lt args) \<and> the (lt args) \<le> the (gt args))
        \<or> (truthy (lte args) \<and> the (lte args) \<le> the (gt args))
      else
        truthy (gte args)
        \<and> ((truthy (lt args) \<and> the (lt args) \<le> the (gte args))
           \<or> (truthy (lte args) \<and> the (lte args) < the (gte args))))"

definition admits :: "ListArgs \<Rightarrow> string \<Rightarrow> bool" where
  \<comment> \<open>the lower bound as \<open>list\<close> applies it when it looks for its start index\<close>
  "admits args k =
     (if truthy (gt args) then k > the (gt args)
      else if truthy (gte args) then k \<ge> the (gte args)
      else True)"

definition leaf_keys :: "tree \<Rightarrow> string set" where
  \<comment> \<open>the keys held by the leaf records of the backing store\<close>
  "leaf_keys t =
     {k. \<exists>i n ks. store t i = Some (NodeJSON n) \<and> vals n \<noteq> None \<and> keys n = Some ks
           \<and> k \<in> set ks}"

section \<open>Evaluation of the model on concrete inputs\<close>

lemmas model_defs =
  init_def store_write_def LEAF_PREFIX_def INTERNAL_PREFIX_def METADATA_KEY_def
  set_kv_def delete_def write_tx_def insert_kv_def insertIntoLeaf_def readNode_def emptyObject_def
  findInsertIndex_def findInsertIndex_loop.simps findChildIndex_def findChildIndex_loop.simps
  nth_opt_def splice_insert_def splice_delete_def actual_start_def assign_at_def
  splitLeafNode_def splitInternalNode.simps updateParentAfterSplit_def
  writeStore_def saveMetadata_def internalNode_def leafNode_def throw_def
  parentIdOf_def truthy_def findNodePath_def findLeaf_def childAt_def half_def
  remove_def rebalanceAfterDelete.simps mergeWithLeftSibling.simps mergeWithRightSibling.simps
  borrowFromLeftSibling_def borrowFromRightSibling_def absorb_def canBorrow_def isLeafPair_def
  pop_opt_def shift_opt_def indexOf_def get_def
  list_bptree_def list_loop.simps list_variant_def list_loop2.simps scanLeaf.simps
  startKey_def startIndex_def noArgs_def pastUpper_def limitReached_def applyOffset_def
  applyReverse_def Let_def
  decimal.simps clockStamp_def defaults_def smallFanout_def
  rootLeaf_def tree_a_to_f_def tree_a_to_g_def tree_after_borrow_def metadataOnly_def
  oracle_list_def

section \<open>The claims\<close>

text \<open>
  C1 (tree and reference oracle list the same entries after any sequence of sets and
  deletes). The code departs from it: with \<open>maxLeafSize = 4\<close>, the constructor on an
  empty store followed by \<open>set\<close> of \<open>a\<close> .. \<open>g\<close> reaches \<open>tree_a_to_g\<close>, where the
  second leaf split has put its separator and its new leaf at the wrong positions of the
  root (\<open>updateParentAfterSplit\<close> reads the index \<open>-1\<close> of the leaf's path entry).
  \<open>list()\<close> of either variant then returns \<open>e, f, g\<close> only, the oracle \<open>a\<close> .. \<open>g\<close>.
\<close>

theorem C1_list_differs_from_oracle:
  "init Map.empty = Inr (rootLeaf [] [])
   \<and> run smallFanout (rootLeaf [] [])
        [SetOp ''a'' ''a'', SetOp ''b'' ''b'', SetOp ''c'' ''c'', SetOp ''d'' ''d'',
         SetOp ''e'' ''e'', SetOp ''f'' ''f'', SetOp ''g'' ''g''] = Inr tree_a_to_g
   \<and> list_bptree tree_a_to_g noArgs
       = Some (Inr [(Some ''e'', Some ''e''), (Some ''f'', Some ''f''), (Some ''g'', Some ''g'')])
   \<and> list_variant tree_a_to_g noArgs
       = Some (Inr [(Some ''e'', Some ''e''), (Some ''f'', Some ''f''), (Some ''g'', Some ''g'')])
   \<and> oracle_list (oracle_run []
        [SetOp ''a'' ''a'', SetOp ''b'' ''b'', SetOp ''c'' ''c'', SetOp ''d'' ''d'',
         SetOp ''e'' ''e'', SetOp ''f'' ''f'', SetOp ''g'' ''g''])
       = [(Some ''a'', Some ''a''), (Some ''b'', Some ''b''), (Some ''c'', Some ''c''),
          (Some ''d'', Some ''d''), (Some ''e'', Some ''e''), (Some ''f'', Some ''f''),
          (Some ''g'', Some ''g'')]"
  by (simp add: model_defs fun_eq_iff)

text \<open>
  C2 (\<open>set(k, v)\<close> followed by \<open>get(k)\<close> returns \<open>v\<close>). The code departs from it: in
  the state after \<open>set\<close> of \<open>a\<close> .. \<open>f\<close> with \<open>maxLeafSize = 4\<close>, \<open>set("g", "g")\<close>
  splits the right leaf, and \<open>get("g")\<close> then descends to the leaf \<open>c, d\<close> and returns
  \<open>undefined\<close>.
\<close>

theorem C2_get_after_set_is_absent:
  "init Map.empty = Inr (rootLeaf [] [])
   \<and> run smallFanout (rootLeaf [] [])
        [SetOp ''a'' ''a'', SetOp ''b'' ''b'', SetOp ''c'' ''c'', SetOp ''d'' ''d'',
         SetOp ''e'' ''e'', SetOp ''f'' ''f''] = Inr tree_a_to_f
   \<and> set_kv smallFanout tree_a_to_f ''g'' ''g'' = Inr tree_a_to_g
   \<and> get tree_a_to_g ''g'' = Inr None"
  by (simp add: model_defs fun_eq_iff)

text \<open>
  The same defect under the default configuration (both sizes 32), on the keys of the
  repository's own splitting test: the 49th ascending key splits the right leaf for the
  second time, after which neither the first key nor the one just set is found.
\<close>

lemma default_fanout_loses_keys:
  "\<exists>t. run defaults (rootLeaf [] [])
        [SetOp ''key000'' ''key000'', SetOp ''key001'' ''key001'', SetOp ''key002'' ''key002'', SetOp ''key003'' ''key003'',
         SetOp ''key004'' ''key004'', SetOp ''key005'' ''key005'', SetOp ''key006'' ''key006'', SetOp ''key007'' ''key007'',
         SetOp ''key008'' ''key008'', SetOp ''key009'' ''key009'', SetOp ''key010'' ''key010'', SetOp ''key011'' ''key011'',
         SetOp ''key012'' ''key012'', SetOp ''key013'' ''key013'', SetOp ''key014'' ''key014'', SetOp ''key015'' ''key015'',
         SetOp ''key016'' ''key016'', SetOp ''key017'' ''key017'', SetOp ''key018'' ''key018'', SetOp ''key019'' ''key019'',
         SetOp ''key020'' ''key020'', SetOp ''key021'' ''key021'', SetOp ''key022'' ''key022'', SetOp ''key023'' ''key023'',
         SetOp ''key024'' ''key024'', SetOp ''key025'' ''key025'', SetOp ''key026'' ''key026'', SetOp ''key027'' ''key027'',
         SetOp ''key028'' ''key028'', SetOp ''key029'' ''key029'', SetOp ''key030'' ''key030'', SetOp ''key031'' ''key031'',
         SetOp ''key032'' ''key032'', SetOp ''key033'' ''key033'', SetOp ''key034'' ''key034'', SetOp ''key035'' ''key035'',
         SetOp ''key036'' ''key036'', SetOp ''key037'' ''key037'', SetOp ''key038'' ''key038'', SetOp ''key039'' ''key039'',
         SetOp ''key040'' ''key040'', SetOp ''key041'' ''key041'', SetOp ''key042'' ''key042'', SetOp ''key043'' ''key043'',
         SetOp ''key044'' ''key044'', SetOp ''key045'' ''key045'', SetOp ''key046'' ''key046'', SetOp ''key047'' ''key047'',
         SetOp ''key048'' ''key048''] = Inr t
      \<and> height t = 1
      \<and> get t ''key000'' = Inr None
      \<and> get t ''key048'' = Inr None"
  by (simp add: model_defs)

text \<open>
  C3 (every entry of \<open>list({gt: k})\<close> has a key above \<open>k\<close>). The code departs from
  it. In \<open>bptree.ts\<close> a leaf without a key above \<open>k\<close> gives the start index \<open>-1\<close>,
  from which the loop emits an \<open>undefined\<close> entry and then the whole leaf: on a new tree
  holding \<open>a\<close> alone, \<open>list({gt: "a"})\<close> returns that entry and \<open>a\<close>. The second
  variant skips such a leaf, but emits a key below the bound from the leaf that a
  borrow during \<open>delete\<close> left unsorted.
\<close>

theorem C3_list_gt_emits_keys_at_or_below_bound:
  "init Map.empty = Inr (rootLeaf [] [])
   \<and> set_kv defaults (rootLeaf [] []) ''a'' ''1'' = Inr (rootLeaf [''a''] [''1''])
   \<and> list_bptree (rootLeaf [''a''] [''1'']) (noArgs\<lparr>gt := Some ''a''\<rparr>)
       = Some (Inr [(None, None), (Some ''a'', Some ''1'')])
   \<and> run smallFanout (rootLeaf [] [])
        [SetOp ''b'' ''b'', SetOp ''c'' ''c'', SetOp ''d'' ''d'', SetOp ''e'' ''e'',
         SetOp ''f'' ''f'', SetOp ''a'' ''a'', DeleteOp ''f'', DeleteOp ''e'']
       = Inr tree_after_borrow
   \<and> list_variant tree_after_borrow (noArgs\<lparr>gt := Some ''b''\<rparr>)
       = Some (Inr [(Some ''c'', Some ''c''), (Some ''d'', Some ''d''), (Some ''a'', Some ''a'')])"
  by (simp add: model_defs fun_eq_iff)

text \<open>
  C4 (every public operation preserves the sorted leaf chain, invariant I1). The code
  departs from it: \<open>tree_a_to_f\<close> satisfies the invariant, and \<open>set("g", "g")\<close> leads to
  \<open>tree_a_to_g\<close>, where the chain from the leftmost leaf is the new leaf alone and
  misses the other two leaves under the root.
\<close>

theorem C4_set_breaks_sorted_leaf_chain:
  "init Map.empty = Inr (rootLeaf [] [])
   \<and> run smallFanout (rootLeaf [] [])
        [SetOp ''a'' ''a'', SetOp ''b'' ''b'', SetOp ''c'' ''c'', SetOp ''d'' ''d'',
         SetOp ''e'' ''e'', SetOp ''f'' ''f''] = Inr tree_a_to_f
   \<and> sortedLeafChain tree_a_to_f
   \<and> set_kv smallFanout tree_a_to_f ''g'' ''g'' = Inr tree_a_to_g
   \<and> \<not> sortedLeafChain tree_a_to_g"
  by (simp add: model_defs fun_eq_iff sortedLeafChain_def treeLeaves_def leafKeys_def
        leafEntries_def)

text \<open>
  C6 (\<open>offset\<close> and \<open>reverse\<close> are applied to the collected sequence). The code
  departs from it. \<open>list\<close> of \<open>bptree.ts\<close> reads neither option: on a tree holding
  \<open>a, b, c\<close> it returns \<open>a, b, c\<close> for \<open>{reverse: true}\<close> and for \<open>{offset: 1}\<close>.
  The second variant applies them after the loop only, and the loop's \<open>return results\<close>
  at an upper bound or at the limit leaves before that: \<open>{lt: "c", reverse: true}\<close>
  returns \<open>a, b\<close>, and \<open>{limit: 2, offset: 1}\<close> returns \<open>a, b\<close>.
\<close>

theorem C6_offset_and_reverse_not_applied:
  "run defaults (rootLeaf [] []) [SetOp ''a'' ''a'', SetOp ''b'' ''b'', SetOp ''c'' ''c'']
     = Inr (rootLeaf [''a'', ''b'', ''c''] [''a'', ''b'', ''c''])
   \<and> list_bptree (rootLeaf [''a'', ''b'', ''c''] [''a'', ''b'', ''c''])
        (noArgs\<lparr>reverse := True\<rparr>)
       = Some (Inr [(Some ''a'', Some ''a''), (Some ''b'', Some ''b''), (Some ''c'', Some ''c'')])
   \<and> list_bptree (rootLeaf [''a'', ''b'', ''c''] [''a'', ''b'', ''c''])
        (noArgs\<lparr>offset := Some 1\<rparr>)
       = Some (Inr [(Some ''a'', Some ''a''), (Some ''b'', Some ''b''), (Some ''c'', Some ''c'')])
   \<and> list_variant (rootLeaf [''a'', ''b'', ''c''] [''a'', ''b'', ''c''])
        (noArgs\<lparr>lt := Some ''c'', reverse := True\<rparr>)
       = Some (Inr [(Some ''a'', Some ''a''), (Some ''b'', Some ''b'')])
   \<and> list_variant (rootLeaf [''a'', ''b'', ''c''] [''a'', ''b'', ''c''])
        (noArgs\<lparr>limit := Some 2, offset := Some 1\<rparr>)
       = Some (Inr [(Some ''a'', Some ''a''), (Some ''b'', Some ''b'')])"
  by (simp add: model_defs fun_eq_iff)

text \<open>
  C8 (\<open>get\<close> never raises, and a missing node record counts as an empty leaf). The
  code departs from it: over a store that holds the metadata record but no record of the
  root, the constructor adopts the metadata and \<open>get("a")\<close> parses \<open>{}\<close>, whose
  \<open>keys\<close> is \<open>undefined\<close>, so that \<open>node.keys.indexOf\<close> raises a TypeError.
\<close>

theorem C8_get_raises_on_missing_record:
  "init metadataOnly = Inr \<lparr>store = metadataOnly, rootId = ''00root'', height = 0, drawn = 0\<rparr>
   \<and> get \<lparr>store = metadataOnly, rootId = ''00root'', height = 0, drawn = 0\<rparr> ''a''
       = Inl TypeError"
  by (simp add: model_defs)

text \<open>
  C5 (small-fanout split). Confirmed for every configuration with \<open>maxLeafSize = 4\<close>,
  every choice of the five values and every run of the clock whose first new identifier
  differs from the root leaf's: after the constructor on an empty store and \<open>set\<close> of
  \<open>a, b, c, d, e\<close> the height is 1, the root is an internal node with the one key
  \<open>c\<close> and the children \<open>00root\<close> and the new leaf, \<open>00root\<close> holds \<open>a, b\<close>, the
  new leaf holds \<open>c, d, e\<close>, and the new leaf is the \<open>next\<close> of \<open>00root\<close>.
\<close>

theorem C5_small_fanout_split:
  assumes "maxLeafSize cfg = 4" and "stamp cfg 0 \<noteq> ''root''"
  shows "init Map.empty = Inr (rootLeaf [] [])
     \<and> (\<exists>t. run cfg (rootLeaf [] [])
               [SetOp ''a'' va, SetOp ''b'' vb, SetOp ''c'' vc, SetOp ''d'' vd, SetOp ''e'' ve]
             = Inr t
          \<and> height t = 1
          \<and> keys (readNode (store t) (Some (rootId t))) = Some [''c'']
          \<and> vals (readNode (store t) (Some (rootId t))) = None
          \<and> children (readNode (store t) (Some (rootId t)))
              = Some [''00root'', LEAF_PREFIX @ stamp cfg 0]
          \<and> keys (readNode (store t) (Some ''00root'')) = Some [''a'', ''b'']
          \<and> vals (readNode (store t) (Some ''00root'')) = Some [va, vb]
          \<and> nxt (readNode (store t) (Some ''00root'')) = Some (LEAF_PREFIX @ stamp cfg 0)
          \<and> keys (readNode (store t) (Some (LEAF_PREFIX @ stamp cfg 0)))
              = Some [''c'', ''d'', ''e'']
          \<and> vals (readNode (store t) (Some (LEAF_PREFIX @ stamp cfg 0))) = Some [vc, vd, ve])"
  using assms assms(2)[symmetric]
  by (simp add: model_defs fun_eq_iff)

theorem C5_small_fanout_split_witness:
  "maxLeafSize smallFanout = 4 \<and> stamp smallFanout 0 \<noteq> ''root''
   \<and> init Map.empty = Inr (rootLeaf [] [])
   \<and> (\<exists>t. run smallFanout (rootLeaf [] [])
             [SetOp ''a'' ''1'', SetOp ''b'' ''2'', SetOp ''c'' ''3'', SetOp ''d'' ''4'',
              SetOp ''e'' ''5'']
           = Inr t
        \<and> height t = 1
        \<and> keys (readNode (store t) (Some (rootId t))) = Some [''c'']
        \<and> vals (readNode (store t) (Some (rootId t))) = None
        \<and> children (readNode (store t) (Some (rootId t)))
            = Some [''00root'', LEAF_PREFIX @ stamp smallFanout 0]
        \<and> keys (readNode (store t) (Some ''00root'')) = Some [''a'', ''b'']
        \<and> vals (readNode (store t) (Some ''00root'')) = Some [''1'', ''2'']
        \<and> nxt (readNode (store t) (Some ''00root'')) = Some (LEAF_PREFIX @ stamp smallFanout 0)
        \<and> keys (readNode (store t) (Some (LEAF_PREFIX @ stamp smallFanout 0)))
            = Some [''c'', ''d'', ''e'']
        \<and> vals (readNode (store t) (Some (LEAF_PREFIX @ stamp smallFanout 0)))
            = Some [''3'', ''4'', ''5''])"
proof -
  have size: "maxLeafSize smallFanout = 4"
    by (simp add: smallFanout_def)
  have fresh: "stamp smallFanout 0 \<noteq> ''root''"
    by (simp add: smallFanout_def clockStamp_def)
  from C5_small_fanout_split[OF size fresh, of "''1''" "''2''" "''3''" "''4''" "''5''"] size fresh
  show ?thesis by blast
qed

section \<open>Facts about the search primitives\<close>

lemma findIndex_ge: "- 1 \<le> findIndex p xs"
  by (induction xs) auto

lemma findIndex_none_iff: "findIndex p xs = - 1 \<longleftrightarrow> (\<forall>x \<in> set xs. \<not> p x)"
proof (induction xs)
  case Nil
  show ?case by simp
next
  case (Cons x xs)
  have "- 1 \<le> findIndex p xs" by (rule findIndex_ge)
  with Cons show ?case by auto
qed

lemma findIndex_hit:
  "findIndex p xs \<noteq> - 1 \<Longrightarrow>
     0 \<le> findIndex p xs \<and> findIndex p xs < int (length xs) \<and> p (xs ! nat (findIndex p xs))"
proof (induction xs)
  case Nil
  then show ?case by simp
next
  case (Cons x xs)
  have ge: "- 1 \<le> findIndex p xs" by (rule findIndex_ge)
  show ?case
  proof (cases "p x")
    case True
    then show ?thesis by simp
  next
    case False
    with Cons.prems have ne: "findIndex p xs \<noteq> - 1" by (auto split: if_splits)
    from Cons.IH[OF ne] ge False show ?thesis
      by (auto simp: nat_add_distrib)
  qed
qed

lemma indexOf_absent: "indexOf xs k = - 1 \<longleftrightarrow> k \<notin> set xs"
  by (auto simp: indexOf_def findIndex_none_iff)

text \<open>\<open>findNodePath\<close> and \<open>findLeaf\<close> walk the same way.\<close>

lemma descent_raises:
  "findLeaf_loop s key n cur = Inl e \<Longrightarrow> findNodePath_loop s key n cur path = Inl e"
  by (induction n arbitrary: cur path) (auto split: option.splits)

lemma descent_reaches:
  "findLeaf_loop s key n cur = Inr leaf \<Longrightarrow>
     \<exists>p. findNodePath_loop s key n cur path = Inr p \<and> p \<noteq> [] \<and> fst (last p) = leaf"
  by (induction n arbitrary: cur path) (auto split: option.splits)

section \<open>Bounds of a range enumeration\<close>

text \<open>
  C7 (contradictory bounds give an empty sequence). The claim fails where both \<open>gt\<close>
  and \<open>gte\<close> are supplied: \<open>list\<close> validates nothing, \<open>gte\<close> picks the leaf where the
  scan starts and \<open>gt\<close> the start index, and on a tree holding \<open>a, b\<close> the call
  \<open>list({gt: "a", gte: "a"})\<close> of either variant returns the entry of \<open>b\<close>.
\<close>

theorem C7_gt_with_gte_returns_entries:
  "run defaults (rootLeaf [] []) [SetOp ''a'' ''a'', SetOp ''b'' ''b'']
     = Inr (rootLeaf [''a'', ''b''] [''a'', ''b''])
   \<and> list_bptree (rootLeaf [''a'', ''b''] [''a'', ''b''])
        (noArgs\<lparr>gt := Some ''a'', gte := Some ''a''\<rparr>)
       = Some (Inr [(Some ''b'', Some ''b'')])
   \<and> list_variant (rootLeaf [''a'', ''b''] [''a'', ''b''])
        (noArgs\<lparr>gt := Some ''a'', gte := Some ''a''\<rparr>)
       = Some (Inr [(Some ''b'', Some ''b'')])"
  by (simp add: model_defs fun_eq_iff)

lemma inverted_start:
  assumes inv: "invertedBounds args" and adm: "\<exists>k \<in> set ks. admits args k"
  shows "startIndex args ks \<noteq> - 1 \<and> startIndex args ks < int (length ks)
         \<and> pastUpper args (nth_opt ks (startIndex args ks))"
proof (cases "truthy (gt args)")
  case True
  let ?p = "\<lambda>k. k > the (gt args)"
  from adm True have ne: "findIndex ?p ks \<noteq> - 1"
    by (auto simp: findIndex_none_iff admits_def)
  from findIndex_hit[OF ne] inv True show ?thesis
    by (auto simp: startIndex_def pastUpper_def nth_opt_def invertedBounds_def)
next
  case False
  with inv have gte: "truthy (gte args)" by (simp add: invertedBounds_def)
  let ?p = "\<lambda>k. k \<ge> the (gte args)"
  from adm False gte have ne: "findIndex ?p ks \<noteq> - 1"
    by (auto simp: findIndex_none_iff admits_def)
  from findIndex_hit[OF ne] inv False gte show ?thesis
    by (auto simp: startIndex_def pastUpper_def nth_opt_def invertedBounds_def)
qed

text \<open>
  C7 as amended: for every tree state and every \<open>list\<close> call with inverted bounds (the
  lower bound above an upper bound, or equal to it with a side open), if the descent
  reaches a leaf record that holds a key admitted by the lower bound, then \<open>list\<close> of
  either variant returns the empty sequence and does not raise. Supplying \<open>gt\<close>
  together with \<open>gte\<close>, or \<open>lt\<close> together with \<open>lte\<close>, is not rejected.
\<close>

theorem C7_inverted_bounds_list_empty:
  assumes inv: "invertedBounds args"
    and leaf: "findLeaf t (startKey args) = Inr (Some leaf)"
    and ks: "keys (readNode (store t) (Some leaf)) = Some ks"
    and adm: "\<exists>k \<in> set ks. admits args k"
  shows "list_bptree t args = Some (Inr []) \<and> list_variant t args = Some (Inr [])"
proof -
  note st = inverted_start[OF inv adm]
  have scan: "scanLeaf args ks vs (startIndex args ks) [] = Inr (True, [])" for vs
    using st by (subst scanLeaf.simps) simp
  have "list_loop (store t) args (Some leaf) [] = Some (Inr [])"
    using ks scan by (subst list_loop.simps) simp
  moreover have "list_loop2 (store t) args (Some leaf) [] =
      (if leaf = [] then Some (Inr (False, [])) else Some (Inr (True, [])))"
    using ks scan st by (subst list_loop2.simps) (simp add: truthy_def)
  ultimately show ?thesis
    using leaf by (simp add: list_bptree_def list_variant_def applyOffset_def applyReverse_def
        split: option.splits)
qed

theorem C7_inverted_bounds_list_empty_witness:
  "invertedBounds (noArgs\<lparr>gt := Some ''a'', lt := Some ''a''\<rparr>)
   \<and> findLeaf (rootLeaf [''a'', ''b''] [''a'', ''b''])
        (startKey (noArgs\<lparr>gt := Some ''a'', lt := Some ''a''\<rparr>)) = Inr (Some ''00root'')
   \<and> keys (readNode (store (rootLeaf [''a'', ''b''] [''a'', ''b''])) (Some ''00root''))
       = Some [''a'', ''b'']
   \<and> (\<exists>k \<in> set [''a'', ''b'']. admits (noArgs\<lparr>gt := Some ''a'', lt := Some ''a''\<rparr>) k)
   \<and> list_bptree (rootLeaf [''a'', ''b''] [''a'', ''b''])
        (noArgs\<lparr>gt := Some ''a'', lt := Some ''a''\<rparr>) = Some (Inr [])
   \<and> list_variant (rootLeaf [''a'', ''b''] [''a'', ''b''])
        (noArgs\<lparr>gt := Some ''a'', lt := Some ''a''\<rparr>) = Some (Inr [])"
proof -
  let ?args = "noArgs\<lparr>gt := Some ''a'', lt := Some ''a''\<rparr>"
  let ?t = "rootLeaf [''a'', ''b''] [''a'', ''b'']"
  have inv: "invertedBounds ?args"
    by (simp add: invertedBounds_def noArgs_def truthy_def)
  have leaf: "findLeaf ?t (startKey ?args) = Inr (Some ''00root'')"
    by (simp add: findLeaf_def rootLeaf_def)
  have ks: "keys (readNode (store ?t) (Some ''00root'')) = Some [''a'', ''b'']"
    by (simp add: readNode_def rootLeaf_def leafNode_def METADATA_KEY_def)
  have adm: "\<exists>k \<in> set [''a'', ''b'']. admits ?args k"
    by (simp add: admits_def noArgs_def truthy_def)
  from C7_inverted_bounds_list_empty[OF inv leaf ks adm] inv leaf ks adm
  show ?thesis by blast
qed

section \<open>Removing an absent key\<close>

lemma stored_leaf_key:
  assumes "key \<notin> leaf_keys t" and "keys (readNode (store t) (Some i)) = Some ks"
    and "vals (readNode (store t) (Some i)) \<noteq> None"
  shows "key \<notin> set ks"
proof
  assume "key \<in> set ks"
  moreover from assms(2) obtain n where "store t i = Some (NodeJSON n)"
    and "readNode (store t) (Some i) = n"
    by (auto simp: readNode_def emptyObject_def split: option.splits record_value.splits)
  ultimately have "key \<in> leaf_keys t"
    using assms(2,3) unfolding leaf_keys_def by blast
  with assms(1) show False by simp
qed

lemma remove_absent:
  assumes "key \<notin> leaf_keys t"
  shows "remove cfg t key = (case get t key of Inl e \<Rightarrow> Inl (e, t) | Inr v \<Rightarrow> Inr t)"
proof (cases "height t = 0")
  case True
  show ?thesis
  proof (cases "keys (readNode (store t) (Some (rootId t)))")
    case None
    with True show ?thesis
      by (simp add: remove_def get_def findLeaf_def throw_def)
  next
    case (Some ks)
    note absent = stored_leaf_key[OF assms Some]
    with True Some show ?thesis
      by (auto simp: remove_def get_def findLeaf_def throw_def indexOf_absent Let_def
            split: option.splits)
  qed
next
  case False
  show ?thesis
  proof (cases "findLeaf_loop (store t) key (nat (height t)) (Some (rootId t))")
    case (Inl e)
    with descent_raises[OF Inl, of "[]"] False
    show ?thesis
      by (simp add: remove_def get_def findLeaf_def findNodePath_def throw_def)
  next
    case (Inr leaf)
    from descent_reaches[OF Inr, of "[]"]
    obtain p where p: "findNodePath_loop (store t) key (nat (height t)) (Some (rootId t)) [] = Inr p"
      "fst (last p) = leaf" by auto
    show ?thesis
    proof (cases leaf)
      case None
      with Inr p False show ?thesis
        by (simp add: remove_def get_def findLeaf_def findNodePath_def throw_def readNode_def
              emptyObject_def)
    next
      case (Some leafId)
      show ?thesis
      proof (cases "keys (readNode (store t) (Some leafId))")
        case None
        with Inr p False Some show ?thesis
          by (simp add: remove_def get_def findLeaf_def findNodePath_def throw_def)
      next
        case ks: (Some ks)
        note absent = stored_leaf_key[OF assms ks]
        with Inr p False Some ks show ?thesis
          by (auto simp: remove_def get_def findLeaf_def findNodePath_def throw_def
                indexOf_absent Let_def split: option.splits)
      qed
    qed
  qed
qed

text \<open>
  C9 (\<open>delete\<close> of an absent key is a no-op). Confirmed for every tree state, reachable
  or not: when no leaf record of the backing store holds the key, \<open>delete\<close> writes
  nothing. It returns the tree as it was, store, root and height; only where the descent
  itself raises (exactly where \<open>get\<close> of the same key raises) does it raise, and then too
  the state is the one it started from.
\<close>

theorem C9_delete_absent_key_is_noop:
  assumes "key \<notin> leaf_keys t"
  shows "delete cfg t key = (case get t key of Inl e \<Rightarrow> Inl (e, t) | Inr v \<Rightarrow> Inr t)"
  using remove_absent[OF assms, of cfg]
  by (simp add: delete_def write_tx_def split: sum.splits)

theorem C9_delete_absent_key_is_noop_witness:
  "''z'' \<notin> leaf_keys tree_a_to_f
   \<and> get tree_a_to_f ''z'' = Inr None
   \<and> delete smallFanout tree_a_to_f ''z'' = Inr tree_a_to_f"
proof -
  have absent: "''z'' \<notin> leaf_keys tree_a_to_f"
    by (auto simp: leaf_keys_def tree_a_to_f_def leafNode_def internalNode_def
          split: if_splits)
  have found: "get tree_a_to_f ''z'' = Inr None"
    by (simp add: model_defs)
  from C9_delete_absent_key_is_noop[OF absent, of smallFanout] absent found
  show ?thesis by simp
qed

section \<open>Options of a range enumeration that are zero\<close>

lemma scanLeaf_cong_args:
  "(\<forall>k. pastUpper a k = pastUpper b k) \<Longrightarrow> (\<forall>rs. limitReached a rs = limitReached b rs)
    \<Longrightarrow> scanLeaf a ks vs i rs = scanLeaf b ks vs i rs"
proof (induction a ks vs i rs rule: scanLeaf.induct)
  case (1 args ks vs i results)
  show ?case
    using 1
    by (subst scanLeaf.simps, subst (2) scanLeaf.simps) (auto split: option.splits)
qed

lemma list_loop_transfer:
  assumes run: "list_loop s a c r = Some y"
    and up: "\<forall>k. pastUpper a k = pastUpper b k"
    and lim: "\<forall>rs. limitReached a rs = limitReached b rs"
    and st: "\<forall>ks. startIndex a ks = startIndex b ks"
  shows "list_loop s b c r = Some y"
proof -
  have "a = a \<longrightarrow> list_loop s b c r = Some y"
  proof (rule list_loop.raw_induct
      [where P = "\<lambda>s' a' c' r' y'. a' = a \<longrightarrow> list_loop s' b c' r' = Some y'", OF _ run])
    fix loop s' a' c' r' y'
    assume IH: "\<And>s'' a'' c'' r'' y''. loop s'' a'' c'' r'' = Some y''
        \<Longrightarrow> a'' = a \<longrightarrow> list_loop s'' b c'' r'' = Some y''"
      and body: "(if truthy c' then
                   (case keys (readNode s' c') of
                      None \<Rightarrow> Some (Inl TypeError)
                    | Some ks \<Rightarrow>
                        (case scanLeaf a' ks (vals (readNode s' c')) (startIndex a' ks) r' of
                           Inl e \<Rightarrow> Some (Inl e)
                         | Inr r \<Rightarrow>
                             if fst r then Some (Inr (snd r))
                             else loop s' a' (nxt (readNode s' c')) (snd r)))
                 else Some (Inr r')) = Some y'"
    show "a' = a \<longrightarrow> list_loop s' b c' r' = Some y'"
    proof
      assume eq: "a' = a"
      have scan: "\<And>ks vs i rs. scanLeaf a ks vs i rs = scanLeaf b ks vs i rs"
        using up lim by (simp add: scanLeaf_cong_args)
      show "list_loop s' b c' r' = Some y'"
        using body IH st unfolding eq
        by (subst list_loop.simps) (auto simp: scan split: if_splits option.splits sum.splits)
    qed
  qed
  then show ?thesis by simp
qed

lemma list_loop_cong_args:
  assumes up: "\<forall>k. pastUpper a k = pastUpper b k"
    and lim: "\<forall>rs. limitReached a rs = limitReached b rs"
    and st: "\<forall>ks. startIndex a ks = startIndex b ks"
  shows "list_loop s a c r = list_loop s b c r"
proof (cases "list_loop s a c r")
  case None
  show ?thesis
  proof (cases "list_loop s b c r")
    case None
    with \<open>list_loop s a c r = None\<close> show ?thesis by simp
  next
    case (Some y)
    then have "list_loop s a c r = Some y"
      using up lim st by (intro list_loop_transfer[of s b c r y a]) simp_all
    with None show ?thesis by simp
  qed
next
  case (Some y)
  then have "list_loop s b c r = Some y"
    using up lim st by (rule list_loop_transfer)
  with Some show ?thesis by simp
qed

lemma list_loop2_transfer:
  assumes run: "list_loop2 s a c r = Some y"
    and up: "\<forall>k. pastUpper a k = pastUpper b k"
    and lim: "\<forall>rs. limitReached a rs = limitReached b rs"
    and st: "\<forall>ks. startIndex a ks = startIndex b ks"
  shows "list_loop2 s b c r = Some y"
proof -
  have "a = a \<longrightarrow> list_loop2 s b c r = Some y"
  proof (rule list_loop2.raw_induct
      [where P = "\<lambda>s' a' c' r' y'. a' = a \<longrightarrow> list_loop2 s' b c' r' = Some y'", OF _ run])
    fix loop s' a' c' r' y'
    assume IH: "\<And>s'' a'' c'' r'' y''. loop s'' a'' c'' r'' = Some y''
        \<Longrightarrow> a'' = a \<longrightarrow> list_loop2 s'' b c'' r'' = Some y''"
      and body: "(if truthy c' then
                   (case keys (readNode s' c') of
                      None \<Rightarrow> Some (Inl TypeError)
                    | Some ks \<Rightarrow>
                        if startIndex a' ks = - 1
                        then loop s' a' (nxt (readNode s' c')) r'
                        else
                          (case scanLeaf a' ks (vals (readNode s' c')) (startIndex a' ks) r' of
                             Inl e \<Rightarrow> Some (Inl e)
                           | Inr r \<Rightarrow>
                               if fst r then Some (Inr (True, snd r))
                               else loop s' a' (nxt (readNode s' c')) (snd r)))
                 else Some (Inr (False, r'))) = Some y'"
    show "a' = a \<longrightarrow> list_loop2 s' b c' r' = Some y'"
    proof
      assume eq: "a' = a"
      have scan: "\<And>ks vs i rs. scanLeaf a ks vs i rs = scanLeaf b ks vs i rs"
        using up lim by (simp add: scanLeaf_cong_args)
      show "list_loop2 s' b c' r' = Some y'"
        using body IH st unfolding eq
        by (subst list_loop2.simps) (auto simp: scan split: if_splits option.splits sum.splits)
    qed
  qed
  then show ?thesis by simp
qed

lemma list_loop2_cong_args:
  assumes up: "\<forall>k. pastUpper a k = pastUpper b k"
    and lim: "\<forall>rs. limitReached a rs = limitReached b rs"
    and st: "\<forall>ks. startIndex a ks = startIndex b ks"
  shows "list_loop2 s a c r = list_loop2 s b c r"
proof (cases "list_loop2 s a c r")
  case None
  show ?thesis
  proof (cases "list_loop2 s b c r")
    case None
    with \<open>list_loop2 s a c r = None\<close> show ?thesis by simp
  next
    case (Some y)
    then have "list_loop2 s a c r = Some y"
      using up lim st by (intro list_loop2_transfer[of s b c r y a]) simp_all
    with None show ?thesis by simp
  qed
next
  case (Some y)
  then have "list_loop2 s b c r = Some y"
    using up lim st by (rule list_loop2_transfer)
  with Some show ?thesis by simp
qed

lemma pastUpper_limit: "pastUpper (args\<lparr>limit := x\<rparr>) k = pastUpper args k"
  by (cases k) (simp_all add: pastUpper_def)

lemma pastUpper_offset: "pastUpper (args\<lparr>offset := x\<rparr>) k = pastUpper args k"
  by (cases k) (simp_all add: pastUpper_def)

lemma startIndex_limit: "startIndex (args\<lparr>limit := x\<rparr>) ks = startIndex args ks"
  by (simp add: startIndex_def)

lemma startIndex_offset: "startIndex (args\<lparr>offset := x\<rparr>) ks = startIndex args ks"
  by (simp add: startIndex_def)

lemma startKey_limit: "startKey (args\<lparr>limit := x\<rparr>) = startKey args"
  by (simp add: startKey_def)

lemma startKey_offset: "startKey (args\<lparr>offset := x\<rparr>) = startKey args"
  by (simp add: startKey_def)

lemma limitReached_zero:
  "limitReached (args\<lparr>limit := Some 0\<rparr>) rs = False"
  "limitReached (args\<lparr>limit := None\<rparr>) rs = False"
  by (simp_all add: limitReached_def)

lemma limitReached_offset:
  "limitReached (args\<lparr>offset := x\<rparr>) rs = limitReached args rs"
  by (simp add: limitReached_def)

lemma applyOffset_zero:
  "applyOffset (args\<lparr>offset := Some 0\<rparr>) rs = rs"
  "applyOffset (args\<lparr>offset := None\<rparr>) rs = rs"
  "applyOffset (args\<lparr>limit := x\<rparr>) rs = applyOffset args rs"
  by (simp_all add: applyOffset_def)

lemma applyReverse_update:
  "applyReverse (args\<lparr>offset := y\<rparr>) rs = applyReverse args rs"
  "applyReverse (args\<lparr>limit := x\<rparr>) rs = applyReverse args rs"
  by (simp_all add: applyReverse_def)

lemmas zero_option_simps =
  pastUpper_limit pastUpper_offset startIndex_limit startIndex_offset startKey_limit
  startKey_offset limitReached_zero limitReached_offset applyOffset_zero applyReverse_update

text \<open>
  C10 (a \<open>limit\<close> or an \<open>offset\<close> of zero behaves as an omitted one). Confirmed for
  every tree state and every combination of the other options, for \<open>list\<close> of both
  variants: the number zero is falsy in \<open>args.limit && ...\<close> and in
  \<open>args.offset && ...\<close>, so the results, the raises and the runs that do not return
  are the same as without the option.
\<close>

theorem C10_zero_limit_or_offset_as_omitted:
  "list_bptree t (args\<lparr>limit := Some 0\<rparr>) = list_bptree t (args\<lparr>limit := None\<rparr>)
   \<and> list_bptree t (args\<lparr>offset := Some 0\<rparr>) = list_bptree t (args\<lparr>offset := None\<rparr>)
   \<and> list_variant t (args\<lparr>limit := Some 0\<rparr>) = list_variant t (args\<lparr>limit := None\<rparr>)
   \<and> list_variant t (args\<lparr>offset := Some 0\<rparr>) = list_variant t (args\<lparr>offset := None\<rparr>)"
proof -
  have l1: "list_loop s (args\<lparr>limit := Some 0\<rparr>) c r = list_loop s (args\<lparr>limit := None\<rparr>) c r"
    for s c r by (rule list_loop_cong_args) (simp_all add: zero_option_simps)
  have l2: "list_loop s (args\<lparr>offset := Some 0\<rparr>) c r = list_loop s (args\<lparr>offset := None\<rparr>) c r"
    for s c r by (rule list_loop_cong_args) (simp_all add: zero_option_simps)
  have l3: "list_loop2 s (args\<lparr>limit := Some 0\<rparr>) c r = list_loop2 s (args\<lparr>limit := None\<rparr>) c r"
    for s c r by (rule list_loop2_cong_args) (simp_all add: zero_option_simps)
  have l4: "list_loop2 s (args\<lparr>offset := Some 0\<rparr>) c r = list_loop2 s (args\<lparr>offset := None\<rparr>) c r"
    for s c r by (rule list_loop2_cong_args) (simp_all add: zero_option_simps)
  have "list_bptree t (args\<lparr>limit := Some 0\<rparr>) = list_bptree t (args\<lparr>limit := None\<rparr>)"
    by (simp add: list_bptree_def l1 zero_option_simps cong: sum.case_cong)
  moreover
  have "list_bptree t (args\<lparr>offset := Some 0\<rparr>) = list_bptree t (args\<lparr>offset := None\<rparr>)"
    by (simp add: list_bptree_def l2 zero_option_simps cong: sum.case_cong)
  moreover
  have "list_variant t (args\<lparr>limit := Some 0\<rparr>) = list_variant t (args\<lparr>limit := None\<rparr>)"
    by (simp add: list_variant_def l3 zero_option_simps
          cong: sum.case_cong option.case_cong if_cong)
  moreover
  have "list_variant t (args\<lparr>offset := Some 0\<rparr>) = list_variant t (args\<lparr>offset := None\<rparr>)"
    by (simp add: list_variant_def l4 zero_option_simps
          cong: sum.case_cong option.case_cong if_cong)
  ultimately show ?thesis by simp
qed

end
